theory Spec2Isabelle
  imports Complex_Main
begin

section \<open>JavaScript numbers\<close>

text \<open>
  The detector computes on JavaScript numbers, which are IEEE 754 double-precision values. A
  number is a real (finite) value or one of the three special values. The arithmetic
  operations compute the exact real result and round it to the nearest double, ties to even,
  with gradual underflow and overflow to infinity, as the standard prescribes for addition,
  subtraction, multiplication, division and square root. The sign of zero is not modelled.
  The finite values of a run are doubles; the type admits every real.
\<close>

datatype number = Fin real | PInf | NInf | NaN

definition signed_inf :: "bool \<Rightarrow> number" where
  "signed_inf pos = (if pos then PInf else NInf)"

subsection \<open>Rounding to the nearest double\<close>

definition pow2 :: "int \<Rightarrow> real" where
  "pow2 e = 2 powi e"

text \<open>The nearest integer, a tie going to the even one.\<close>

definition rhe :: "real \<Rightarrow> int" where
  "rhe y = (let f = \<lfloor>y\<rfloor>; d = y - of_int f
            in if d < 1 / 2 then f else if 1 / 2 < d then f + 1
               else if even f then f else f + 1)"

text \<open>The binade of a magnitude: the largest exponent from -1022 to 1023 whose power of two
  is at most the magnitude, and -1022 for the subnormal range and zero.\<close>

fun find_exp :: "real \<Rightarrow> nat \<Rightarrow> int" where
  "find_exp a 0 = - 1022"
| "find_exp a (Suc n) =
     (if pow2 (int (Suc n) - 1022) \<le> a then int (Suc n) - 1022 else find_exp a n)"

definition exponent :: "real \<Rightarrow> int" where
  "exponent x = find_exp \<bar>x\<bar> 2045"

text \<open>A double of binade \<open>e\<close> is a multiple of \<open>2^(e - 52)\<close>; a result whose rounded magnitude
  reaches \<open>2^1024\<close> overflows.\<close>

definition round64 :: "real \<Rightarrow> number" where
  "round64 x =
     (let q = pow2 (exponent x - 52);
          r = of_int (rhe (x / q)) * q
      in if pow2 1024 \<le> \<bar>r\<bar> then signed_inf (0 < x) else Fin r)"

subsection \<open>Operations\<close>

fun js_neg :: "number \<Rightarrow> number" where
  "js_neg (Fin a) = Fin (- a)"
| "js_neg PInf = NInf"
| "js_neg NInf = PInf"
| "js_neg NaN = NaN"

fun js_add :: "number \<Rightarrow> number \<Rightarrow> number" where
  "js_add (Fin a) (Fin b) = round64 (a + b)"
| "js_add NaN _ = NaN"
| "js_add _ NaN = NaN"
| "js_add PInf NInf = NaN"
| "js_add NInf PInf = NaN"
| "js_add PInf _ = PInf"
| "js_add NInf _ = NInf"
| "js_add (Fin a) PInf = PInf"
| "js_add (Fin a) NInf = NInf"

definition js_sub :: "number \<Rightarrow> number \<Rightarrow> number" where
  "js_sub x y = js_add x (js_neg y)"

text \<open>The sign of an infinite or nonzero finite operand, used by product and quotient.\<close>

fun js_positive :: "number \<Rightarrow> bool" where
  "js_positive (Fin a) = (0 \<le> a)"
| "js_positive PInf = True"
| "js_positive NInf = False"
| "js_positive NaN = False"

fun js_mul :: "number \<Rightarrow> number \<Rightarrow> number" where
  "js_mul (Fin a) (Fin b) = round64 (a * b)"
| "js_mul NaN _ = NaN"
| "js_mul _ NaN = NaN"
| "js_mul (Fin a) y = (if a = 0 then NaN else signed_inf (js_positive (Fin a) = js_positive y))"
| "js_mul x (Fin b) = (if b = 0 then NaN else signed_inf (js_positive x = js_positive (Fin b)))"
| "js_mul x y = signed_inf (js_positive x = js_positive y)"

fun js_div :: "number \<Rightarrow> number \<Rightarrow> number" where
  "js_div (Fin a) (Fin b) =
     (if b \<noteq> 0 then round64 (a / b)
      else if a = 0 then NaN
      else signed_inf (0 < a))"
| "js_div NaN _ = NaN"
| "js_div _ NaN = NaN"
| "js_div (Fin a) _ = Fin 0"
| "js_div x (Fin b) = signed_inf (js_positive x = (0 \<le> b))"
| "js_div _ _ = NaN"

fun js_sqrt :: "number \<Rightarrow> number" where
  "js_sqrt (Fin a) = (if a < 0 then NaN else round64 (sqrt a))"
| "js_sqrt PInf = PInf"
| "js_sqrt NInf = NaN"
| "js_sqrt NaN = NaN"

text \<open>\<open>Math.pow(x, 2)\<close>, taken as the rounded product \<open>x * x\<close>, which is what the engines' power
  function returns for the exponent 2.\<close>

fun js_pow2 :: "number \<Rightarrow> number" where
  "js_pow2 (Fin a) = round64 (a * a)"
| "js_pow2 PInf = PInf"
| "js_pow2 NInf = PInf"
| "js_pow2 NaN = NaN"

fun js_abs :: "number \<Rightarrow> number" where
  "js_abs (Fin a) = Fin \<bar>a\<bar>"
| "js_abs PInf = PInf"
| "js_abs NInf = PInf"
| "js_abs NaN = NaN"

text \<open>\<open>Math.sin\<close> and \<open>Math.cos\<close> are approximations whose last bit the language leaves to the
  engine; they are taken here as the correctly rounded values.\<close>

fun js_sin :: "number \<Rightarrow> number" where
  "js_sin (Fin a) = round64 (sin a)"
| "js_sin _ = NaN"

fun js_cos :: "number \<Rightarrow> number" where
  "js_cos (Fin a) = round64 (cos a)"
| "js_cos _ = NaN"

text \<open>The remainder operator \<open>%\<close>: the quotient is truncated towards zero, so the result has
  the sign of the dividend; the remainder of two doubles is a double, and is not rounded.\<close>

definition trunc :: "real \<Rightarrow> int" where
  "trunc x = (if 0 \<le> x then \<lfloor>x\<rfloor> else \<lceil>x\<rceil>)"

fun js_rem :: "number \<Rightarrow> number \<Rightarrow> number" where
  "js_rem (Fin a) (Fin b) = (if b = 0 then NaN else Fin (a - b * of_int (trunc (a / b))))"
| "js_rem (Fin a) PInf = Fin a"
| "js_rem (Fin a) NInf = Fin a"
| "js_rem _ _ = NaN"

text \<open>\<open>x > y\<close>: false as soon as one side is \<open>NaN\<close>.\<close>

fun js_gt :: "number \<Rightarrow> number \<Rightarrow> bool" where
  "js_gt (Fin a) (Fin b) = (b < a)"
| "js_gt NaN _ = False"
| "js_gt _ NaN = False"
| "js_gt PInf PInf = False"
| "js_gt PInf _ = True"
| "js_gt NInf _ = False"
| "js_gt (Fin a) PInf = False"
| "js_gt (Fin a) NInf = True"

text \<open>Strict equality \<open>===\<close> between numbers: \<open>NaN\<close> equals nothing.\<close>

definition js_eq :: "number \<Rightarrow> number \<Rightarrow> bool" where
  "js_eq x y = (x \<noteq> NaN \<and> x = y)"

text \<open>Truthiness of a number, and \<open>x || d\<close> on numbers: \<open>0\<close> and \<open>NaN\<close> are falsy.\<close>

definition truthy :: "number \<Rightarrow> bool" where
  "truthy x = (x \<noteq> Fin 0 \<and> x \<noteq> NaN)"

definition js_or :: "number \<Rightarrow> number \<Rightarrow> number" where
  "js_or x d = (if truthy x then x else d)"

text \<open>A field that may be \<open>undefined\<close> is an option; \<open>undefined\<close> is falsy, it is strictly
  equal to no number, and in arithmetic it converts to \<open>NaN\<close>.\<close>

definition opt_or :: "number option \<Rightarrow> number \<Rightarrow> number" where
  "opt_or x d = (case x of None \<Rightarrow> d | Some v \<Rightarrow> js_or v d)"

definition opt_eq :: "number option \<Rightarrow> number \<Rightarrow> bool" where
  "opt_eq x y = (case x of None \<Rightarrow> False | Some v \<Rightarrow> js_eq v y)"

definition to_number :: "number option \<Rightarrow> number" where
  "to_number x = (case x of None \<Rightarrow> NaN | Some v \<Rightarrow> v)"

text \<open>\<open>xs[i]\<close> on an array: \<open>undefined\<close> past the end.\<close>

definition nth_opt :: "'a list \<Rightarrow> nat \<Rightarrow> 'a option" where
  "nth_opt xs i = (if i < length xs then Some (xs ! i) else None)"

section \<open>Data model\<close>

text \<open>
  \<open>Transaction\<close> of \<open>types/Transaction\<close>. The interface declares \<open>TX_FRAUD\<close> a number; a record
  built without the field reads \<open>undefined\<close> there, which is \<open>None\<close>. \<open>predicted_scenario\<close> is
  the extra property the rule-based detector adds.
\<close>

record Transaction =
  TRANSACTION_ID :: string
  TX_DATETIME :: string
  CUSTOMER_ID :: string
  TERMINAL_ID :: string
  TX_AMOUNT :: number
  TX_TIME_SECONDS :: number
  TX_TIME_DAYS :: number
  TX_FRAUD :: "number option"
  TX_FRAUD_SCENARIO :: "number option"
  predicted_fraud :: "number option"
  predicted_probability :: "number option"
  predicted_scenario :: "number option"

record ModelMetrics =
  accuracy :: number
  precision :: number
  recall :: number
  f1Score :: number
  confusion_matrix :: "number list list"

datatype error = TypeError string | Error string

section \<open>FraudDetector.calculateMetrics\<close>

record counts =
  tp :: int
  fp :: int
  tn :: int
  fn :: int

definition count_row :: "Transaction \<Rightarrow> Transaction \<Rightarrow> counts \<Rightarrow> counts" where
  "count_row a p c =
     (let actualLabel = TX_FRAUD a;
          predictedLabel = opt_or (predicted_fraud p) (Fin 0)
      in if opt_eq actualLabel (Fin 1) \<and> js_eq predictedLabel (Fin 1) then c\<lparr>tp := tp c + 1\<rparr>
         else if opt_eq actualLabel (Fin 0) \<and> js_eq predictedLabel (Fin 1) then c\<lparr>fp := fp c + 1\<rparr>
         else if opt_eq actualLabel (Fin 0) \<and> js_eq predictedLabel (Fin 0) then c\<lparr>tn := tn c + 1\<rparr>
         else if opt_eq actualLabel (Fin 1) \<and> js_eq predictedLabel (Fin 0) then c\<lparr>fn := fn c + 1\<rparr>
         else c)"

text \<open>The loop runs over the indices of \<open>actual\<close>; reading a property of \<open>predicted[i]\<close> past
  the end of \<open>predicted\<close> throws.\<close>

fun count_loop :: "Transaction list \<Rightarrow> Transaction list \<Rightarrow> counts \<Rightarrow> error + counts" where
  "count_loop [] ps c = Inr c"
| "count_loop (a # as) [] c =
     Inl (TypeError ''Cannot read properties of undefined (reading predicted_fraud)'')"
| "count_loop (a # as) (p # ps) c = count_loop as ps (count_row a p c)"

definition num :: "int \<Rightarrow> number" where
  "num k = Fin (of_int k)"

definition metrics_of :: "counts \<Rightarrow> ModelMetrics" where
  "metrics_of c =
     (let accuracy = js_div (num (tp c + tn c)) (num (tp c + fp c + tn c + fn c));
          precision = js_or (js_div (num (tp c)) (num (tp c + fp c))) (Fin 0);
          recall = js_or (js_div (num (tp c)) (num (tp c + fn c))) (Fin 0);
          f1Score = js_or (js_div (js_mul (Fin 2) (js_mul precision recall))
                                  (js_add precision recall)) (Fin 0)
      in \<lparr>accuracy = accuracy, precision = precision, recall = recall, f1Score = f1Score,
          confusion_matrix = [[num (tn c), num (fp c)], [num (fn c), num (tp c)]]\<rparr>)"

definition calculateMetrics :: "Transaction list \<Rightarrow> Transaction list \<Rightarrow> error + ModelMetrics" where
  "calculateMetrics actual predicted =
     (case count_loop actual predicted \<lparr>tp = 0, fp = 0, tn = 0, fn = 0\<rparr> of
        Inl e \<Rightarrow> Inl e
      | Inr c \<Rightarrow> Inr (metrics_of c))"

section \<open>Grouping a batch by customer or terminal\<close>

text \<open>
  Both aggregations group with \<open>transactions.reduce\<close> into an object literal \<open>{}\<close>:
  \<^verbatim>\<open>if (!acc[k]) acc[k] = []; acc[k].push(t); return acc;\<close>
  The accumulator is a map from its own keys to the rows pushed so far. An object literal
  also answers a read of a name it inherits from \<open>Object.prototype\<close>: the value read is then
  a function (or, for \<open>__proto__\<close>, the prototype object), which is truthy and has no \<open>push\<close>,
  so no array is stored and the call of \<open>push\<close> throws.
\<close>

definition object_prototype_keys :: "string list" where
  "object_prototype_keys =
     [''constructor'', ''__defineGetter__'', ''__defineSetter__'', ''hasOwnProperty'',
      ''__lookupGetter__'', ''__lookupSetter__'', ''isPrototypeOf'', ''propertyIsEnumerable'',
      ''toString'', ''valueOf'', ''__proto__'', ''toLocaleString'']"

definition push_error :: error where
  "push_error = TypeError ''acc[k].push is not a function''"

definition group_push ::
  "(Transaction \<Rightarrow> string) \<Rightarrow> (string \<rightharpoonup> Transaction list) \<Rightarrow> Transaction \<Rightarrow>
     error + (string \<rightharpoonup> Transaction list)" where
  "group_push key acc t =
     (let k = key t
      in case acc k of
           Some g \<Rightarrow> Inr (acc(k \<mapsto> g @ [t]))
         | None \<Rightarrow>
             if k \<in> set object_prototype_keys
             then Inl push_error
             else Inr (acc(k \<mapsto> [] @ [t])))"

fun group_reduce ::
  "(Transaction \<Rightarrow> string) \<Rightarrow> (string \<rightharpoonup> Transaction list) \<Rightarrow> Transaction list \<Rightarrow>
     error + (string \<rightharpoonup> Transaction list)" where
  "group_reduce key acc [] = Inr acc"
| "group_reduce key acc (t # ts) =
     (case group_push key acc t of
        Inl e \<Rightarrow> Inl e
      | Inr acc' \<Rightarrow> group_reduce key acc' ts)"

section \<open>FraudDetector.calculateCustomerStats and calculateTerminalStats\<close>

record customerStat =
  avgAmount :: number
  transactionCount :: number
  amountVariation :: number

record terminalStat =
  avgAmount :: number
  transactionCount :: number
  fraudRate :: number

definition len :: "'a list \<Rightarrow> number" where
  "len xs = Fin (real (length xs))"

definition average :: "number list \<Rightarrow> number" where
  "average amounts = js_div (foldl (\<lambda>a b. js_add a b) (Fin 0) amounts) (len amounts)"

definition customer_stat :: "Transaction list \<Rightarrow> customerStat" where
  "customer_stat customerTransactions =
     (let amounts = map TX_AMOUNT customerTransactions;
          avg = average amounts;
          variation = js_sqrt
            (js_div (foldl (\<lambda>sum amount. js_add sum (js_pow2 (js_sub amount avg))) (Fin 0) amounts)
                    (len amounts))
      in \<lparr>customerStat.avgAmount = avg,
          customerStat.transactionCount = len customerTransactions,
          amountVariation = variation\<rparr>)"

definition terminal_stat :: "Transaction list \<Rightarrow> terminalStat" where
  "terminal_stat terminalTransactions =
     (let amounts = map TX_AMOUNT terminalTransactions;
          avg = average amounts;
          fraudCount = len (filter (\<lambda>t. opt_eq (TX_FRAUD t) (Fin 1)) terminalTransactions);
          rate = js_div fraudCount (len terminalTransactions)
      in \<lparr>terminalStat.avgAmount = avg,
          terminalStat.transactionCount = len terminalTransactions,
          fraudRate = rate\<rparr>)"

text \<open>The result is a \<open>Map\<close> filled from \<open>Object.entries\<close> of the groups: one entry for each
  own key of the accumulator.\<close>

definition calculateCustomerStats :: "Transaction list \<Rightarrow> error + (string \<rightharpoonup> customerStat)" where
  "calculateCustomerStats transactions =
     (case group_reduce CUSTOMER_ID Map.empty transactions of
        Inl e \<Rightarrow> Inl e
      | Inr customerGroups \<Rightarrow> Inr (\<lambda>customerId. map_option customer_stat (customerGroups customerId)))"

definition calculateTerminalStats :: "Transaction list \<Rightarrow> error + (string \<rightharpoonup> terminalStat)" where
  "calculateTerminalStats transactions =
     (case group_reduce TERMINAL_ID Map.empty transactions of
        Inl e \<Rightarrow> Inl e
      | Inr terminalGroups \<Rightarrow> Inr (\<lambda>terminalId. map_option terminal_stat (terminalGroups terminalId)))"

section \<open>FraudDetector.extractFeatures\<close>

text \<open>\<open>Math.PI\<close> is the double nearest to \<open>\<pi>\<close>.\<close>

definition Math_PI :: number where
  "Math_PI = Fin (884279719003555 / 281474976710656)"

definition phase :: "number \<Rightarrow> real \<Rightarrow> number" where
  "phase x period = js_div (js_mul (js_mul (Fin 2) Math_PI) (js_rem x (Fin period))) (Fin period)"

text \<open>The body of the \<open>map\<close> callback: the row of one transaction, given the two maps.\<close>

definition feature_row ::
  "(string \<rightharpoonup> customerStat) \<Rightarrow> (string \<rightharpoonup> terminalStat) \<Rightarrow> Transaction \<Rightarrow> number list" where
  "feature_row customerStats terminalStats transaction =
     (let customerStat = customerStats (CUSTOMER_ID transaction);
          terminalStat = terminalStats (TERMINAL_ID transaction)
      in [TX_AMOUNT transaction,
          TX_TIME_SECONDS transaction,
          TX_TIME_DAYS transaction,
          opt_or (map_option customerStat.avgAmount customerStat) (Fin 0),
          opt_or (map_option customerStat.transactionCount customerStat) (Fin 0),
          opt_or (map_option amountVariation customerStat) (Fin 0),
          opt_or (map_option terminalStat.avgAmount terminalStat) (Fin 0),
          opt_or (map_option terminalStat.transactionCount terminalStat) (Fin 0),
          opt_or (map_option fraudRate terminalStat) (Fin 0),
          js_abs (js_sub (TX_AMOUNT transaction)
                         (opt_or (map_option customerStat.avgAmount customerStat) (Fin 0))),
          js_sin (phase (TX_TIME_SECONDS transaction) 86400),
          js_cos (phase (TX_TIME_SECONDS transaction) 86400),
          js_sin (phase (TX_TIME_DAYS transaction) 7),
          js_cos (phase (TX_TIME_DAYS transaction) 7)])"

definition extractFeatures :: "Transaction list \<Rightarrow> error + number list list" where
  "extractFeatures transactions =
     (case calculateCustomerStats transactions of
        Inl e \<Rightarrow> Inl e
      | Inr customerStats \<Rightarrow>
          (case calculateTerminalStats transactions of
             Inl e \<Rightarrow> Inl e
           | Inr terminalStats \<Rightarrow> Inr (map (feature_row customerStats terminalStats) transactions)))"

section \<open>The scaler: normalizeFeatures and applyNormalization\<close>

record Scaler =
  mean :: "number list"
  std :: "number list"

text \<open>The detector's fields. The fitted \<open>tf.Sequential\<close> is an external library object: it is
  kept as the function from a feature matrix to the probabilities that \<open>model.predict\<close>
  returns.\<close>

record FraudDetector =
  model :: "(number list list \<Rightarrow> number list) option"
  scaler :: "Scaler option"
  isTraining :: bool

definition cell :: "number list \<Rightarrow> nat \<Rightarrow> number" where
  "cell row i = to_number (nth_opt row i)"

definition column_mean :: "number list list \<Rightarrow> nat \<Rightarrow> number" where
  "column_mean features i =
     js_div (foldl (\<lambda>sum row. js_add sum (cell row i)) (Fin 0) features) (len features)"

definition column_variance :: "number list list \<Rightarrow> number list \<Rightarrow> nat \<Rightarrow> number" where
  "column_variance features means i =
     js_div (foldl (\<lambda>sum row. js_add sum (js_pow2 (js_sub (cell row i) (cell means i)))) (Fin 0)
               features)
            (len features)"

definition scale_row :: "number list \<Rightarrow> number list \<Rightarrow> number list \<Rightarrow> number list" where
  "scale_row means stds row =
     map (\<lambda>(value, i). js_div (js_sub value (cell means i)) (cell stds i))
         (zip row [0..<length row])"

definition normalizeFeatures ::
  "FraudDetector \<Rightarrow> number list list \<Rightarrow> FraudDetector \<times> number list list" where
  "normalizeFeatures this features =
     (case features of
        [] \<Rightarrow> (this, features)
      | first # _ \<Rightarrow>
          (let numFeatures = length first;
               means = map (column_mean features) [0..<numFeatures];
               stds = map (\<lambda>i. js_or (js_sqrt (column_variance features means i)) (Fin 1))
                          [0..<numFeatures]
           in (this\<lparr>scaler := Some \<lparr>mean = means, std = stds\<rparr>\<rparr>,
               map (scale_row means stds) features)))"

definition applyNormalization :: "FraudDetector \<Rightarrow> number list list \<Rightarrow> number list list" where
  "applyNormalization this features =
     (case scaler this of
        None \<Rightarrow> features
      | Some s \<Rightarrow> map (scale_row (mean s) (std s)) features)"

section \<open>FraudDetector.predict\<close>

text \<open>The guard \<open>!this.model || !this.scaler\<close> comes first. The calls into the tensor library
  (building the tensor, \<open>model.predict\<close>, reading the data back) are taken to return; training
  itself, \<open>trainModel\<close>, is the library's work and is not part of this development.\<close>

definition label_row :: "number list \<Rightarrow> Transaction \<times> nat \<Rightarrow> Transaction" where
  "label_row probabilities = (\<lambda>(transaction, index).
     transaction\<lparr>predicted_fraud :=
                   Some (if js_gt (cell probabilities index) (Fin 0.5) then Fin 1 else Fin 0),
                 predicted_probability := nth_opt probabilities index\<rparr>)"

definition predict :: "FraudDetector \<Rightarrow> Transaction list \<Rightarrow> error + Transaction list" where
  "predict this transactions =
     (case (model this, scaler this) of
        (Some m, Some s) \<Rightarrow>
          (case extractFeatures transactions of
             Inl e \<Rightarrow> Inl e
           | Inr features \<Rightarrow>
               (let normalizedFeatures = applyNormalization this features;
                    probabilities = m normalizedFeatures
                in Inr (map (label_row probabilities)
                            (zip transactions [0..<length transactions]))))
      | _ \<Rightarrow> Inl (Error ''Model not trained yet''))"

section \<open>FraudDetector.detectFraudRuleBased\<close>

text \<open>The body of the \<open>map\<close> callback: the two local variables after the cascade.\<close>

definition rule_cascade ::
  "(string \<rightharpoonup> customerStat) \<Rightarrow> (string \<rightharpoonup> terminalStat) \<Rightarrow> Transaction \<Rightarrow> number \<times> number" where
  "rule_cascade customerStats terminalStats transaction =
     (if js_gt (TX_AMOUNT transaction) (Fin 220) then (Fin 1, Fin 1)
      else
        (let terminalStat = terminalStats (TERMINAL_ID transaction)
         in if (case terminalStat of None \<Rightarrow> False
                | Some ts \<Rightarrow> js_gt (fraudRate ts) (Fin 0.5))
            then (Fin 1, Fin 2)
            else
              (let customerStat = customerStats (CUSTOMER_ID transaction)
               in if (case customerStat of None \<Rightarrow> False
                      | Some cs \<Rightarrow> js_gt (TX_AMOUNT transaction)
                                        (js_mul (customerStat.avgAmount cs) (Fin 3)))
                  then (Fin 1, Fin 3)
                  else (Fin 0, Fin 0))))"

definition rule_row ::
  "(string \<rightharpoonup> customerStat) \<Rightarrow> (string \<rightharpoonup> terminalStat) \<Rightarrow> Transaction \<Rightarrow> Transaction" where
  "rule_row customerStats terminalStats transaction =
     (case rule_cascade customerStats terminalStats transaction of
        (predictedFraud, predictedScenario) \<Rightarrow>
          transaction\<lparr>predicted_fraud := Some predictedFraud,
                      predicted_scenario := Some predictedScenario,
                      predicted_probability := Some predictedFraud\<rparr>)"

definition detectFraudRuleBased :: "Transaction list \<Rightarrow> error + Transaction list" where
  "detectFraudRuleBased transactions =
     (case calculateCustomerStats transactions of
        Inl e \<Rightarrow> Inl e
      | Inr customerStats \<Rightarrow>
          (case calculateTerminalStats transactions of
             Inl e \<Rightarrow> Inl e
           | Inr terminalStats \<Rightarrow> Inr (map (rule_row customerStats terminalStats) transactions)))"

section \<open>Notions used in the statements\<close>

subsection \<open>Doubles\<close>

text \<open>A double is \<open>m * 2^k\<close> with \<open>|m| < 2^53\<close>, \<open>k\<close> at least the exponent of the smallest
  subnormal, and magnitude below \<open>2^1024\<close>.\<close>

definition is_double :: "real \<Rightarrow> bool" where
  "is_double x =
     (\<exists>m k. x = of_int m * pow2 k \<and> \<bar>m\<bar> < 2 ^ 53 \<and> - 1074 \<le> k \<and> \<bar>x\<bar> < pow2 1024)"

subsection \<open>Groups and keys\<close>

text \<open>The rows already stored under a key of the accumulator; the rows of a batch that carry
  a given customer or terminal id; the lookup in a returned map.\<close>

definition own :: "(string \<rightharpoonup> Transaction list) \<Rightarrow> string \<Rightarrow> Transaction list" where
  "own acc k = (case acc k of None \<Rightarrow> [] | Some g \<Rightarrow> g)"

definition customer_rows :: "Transaction list \<Rightarrow> string \<Rightarrow> Transaction list" where
  "customer_rows ts k = filter (\<lambda>t. CUSTOMER_ID t = k) ts"

definition terminal_rows :: "Transaction list \<Rightarrow> string \<Rightarrow> Transaction list" where
  "terminal_rows ts k = filter (\<lambda>t. TERMINAL_ID t = k) ts"

definition stats_get :: "error + (string \<rightharpoonup> 'a) \<Rightarrow> string \<Rightarrow> 'a option" where
  "stats_get r k = (case r of Inl e \<Rightarrow> None | Inr m \<Rightarrow> m k)"

text \<open>A plain key is one that an object literal does not inherit; a plain batch has only plain
  customer and terminal ids.\<close>

definition plain_key :: "string \<Rightarrow> bool" where
  "plain_key k = (k \<notin> set object_prototype_keys)"

definition plain_batch :: "Transaction list \<Rightarrow> bool" where
  "plain_batch ts = list_all (\<lambda>t. plain_key (CUSTOMER_ID t) \<and> plain_key (TERMINAL_ID t)) ts"

subsection \<open>Labels and counters\<close>

definition binary :: "number option \<Rightarrow> bool" where
  "binary l = (l = Some (Fin 0) \<or> l = Some (Fin 1))"

definition total :: "counts \<Rightarrow> int" where
  "total c = tn c + fp c + fn c + tp c"

definition nonneg :: "counts \<Rightarrow> bool" where
  "nonneg c = (0 \<le> tn c \<and> 0 \<le> fp c \<and> 0 \<le> fn c \<and> 0 \<le> tp c)"

section \<open>Sample data\<close>

text \<open>A parsed row, with no predicted field set yet; and a detector as constructed, with the
  field initialisers of the class.\<close>

definition new_tx :: "string \<Rightarrow> string \<Rightarrow> string \<Rightarrow> number \<Rightarrow> number option \<Rightarrow> Transaction" where
  "new_tx tid cid mid amount fraud =
     \<lparr>TRANSACTION_ID = tid, TX_DATETIME = ''2018-04-01 00:00:00'', CUSTOMER_ID = cid,
      TERMINAL_ID = mid, TX_AMOUNT = amount, TX_TIME_SECONDS = Fin 0, TX_TIME_DAYS = Fin 0,
      TX_FRAUD = fraud, TX_FRAUD_SCENARIO = None, predicted_fraud = None,
      predicted_probability = None, predicted_scenario = None\<rparr>"

definition new_FraudDetector :: FraudDetector where
  "new_FraudDetector = \<lparr>model = None, scaler = None, isTraining = False\<rparr>"

text \<open>Ground truth 1, 0, 1, 0 scored as 1, 0, 0, 0.\<close>

definition sample_actual :: "Transaction list" where
  "sample_actual =
     [new_tx ''1'' ''C1'' ''T1'' (Fin 10) (Some (Fin 1)),
      new_tx ''2'' ''C1'' ''T2'' (Fin 20) (Some (Fin 0)),
      new_tx ''3'' ''C2'' ''T1'' (Fin 30) (Some (Fin 1)),
      new_tx ''4'' ''C2'' ''T2'' (Fin 40) (Some (Fin 0))]"

definition sample_predicted :: "Transaction list" where
  "sample_predicted =
     [(new_tx ''1'' ''C1'' ''T1'' (Fin 10) (Some (Fin 1)))\<lparr>predicted_fraud := Some (Fin 1)\<rparr>,
      (new_tx ''2'' ''C1'' ''T2'' (Fin 20) (Some (Fin 0)))\<lparr>predicted_fraud := Some (Fin 0)\<rparr>,
      (new_tx ''3'' ''C2'' ''T1'' (Fin 30) (Some (Fin 1)))\<lparr>predicted_fraud := Some (Fin 0)\<rparr>,
      (new_tx ''4'' ''C2'' ''T2'' (Fin 40) (Some (Fin 0)))\<lparr>predicted_fraud := Some (Fin 0)\<rparr>]"

text \<open>A batch in which each rule of the cascade decides one row: a high amount, a
  terminal whose two rows are both fraud, an amount above three times the customer's mean, and
  three rows that no rule matches.\<close>

definition rule_batch :: "Transaction list" where
  "rule_batch =
     [new_tx ''1'' ''C1'' ''T1'' (Fin 500) (Some (Fin 1)),
      new_tx ''2'' ''C2'' ''T1'' (Fin 50) (Some (Fin 1)),
      new_tx ''3'' ''C3'' ''T2'' (Fin 70) (Some (Fin 0)),
      new_tx ''4'' ''C3'' ''T2'' (Fin 2) (Some (Fin 0)),
      new_tx ''5'' ''C3'' ''T2'' (Fin 2) (Some (Fin 0)),
      new_tx ''6'' ''C3'' ''T2'' (Fin 2) (Some (Fin 0))]"

text \<open>One row without a ground-truth label; one row whose customer id is a name every object
  literal inherits; and a row of amount 500 followed by a row whose customer id is such a
  name.\<close>

definition unlabelled_batch :: "Transaction list" where
  "unlabelled_batch = [new_tx ''1'' ''C1'' ''T1'' (Fin 10) None]"

definition inherited_name_batch :: "Transaction list" where
  "inherited_name_batch = [new_tx ''1'' ''constructor'' ''T1'' (Fin 10) (Some (Fin 0))]"

definition high_amount_batch :: "Transaction list" where
  "high_amount_batch =
     [new_tx ''1'' ''C1'' ''T1'' (Fin 500) (Some (Fin 1)),
      new_tx ''2'' ''toString'' ''T1'' (Fin 10) (Some (Fin 0))]"

text \<open>The double written \<open>0.1\<close>, and a feature matrix of three rows with that one entry: a
  constant column.\<close>

definition tenth :: real where
  "tenth = 3602879701896397 / 36028797018963968"

definition constant_column :: "number list list" where
  "constant_column = [[Fin tenth], [Fin tenth], [Fin tenth]]"

text \<open>The mean and the deviation that the fit computes for that column: the mean is one unit
  in the last place above the entries.\<close>

definition tenth_mean :: real where
  "tenth_mean = 7205759403792795 / 72057594037927936"

definition tenth_std :: real where
  "tenth_std = 1 / 72057594037927936"

text \<open>The doubles written \<open>14.4\<close>, \<open>0.8\<close>, \<open>3.6\<close> and \<open>0.4\<close>, and four rows of one customer at
  one terminal with these amounts. Their exact mean is 4.8, and three times 4.8 is 14.4.\<close>

definition dbl_14_4 :: real where
  "dbl_14_4 = 8106479329266893 / 562949953421312"

definition dbl_0_8 :: real where
  "dbl_0_8 = 3602879701896397 / 4503599627370496"

definition dbl_3_6 :: real where
  "dbl_3_6 = 8106479329266893 / 2251799813685248"

definition dbl_0_4 :: real where
  "dbl_0_4 = 3602879701896397 / 9007199254740992"

definition rounding_batch :: "Transaction list" where
  "rounding_batch =
     [new_tx ''1'' ''C1'' ''T1'' (Fin dbl_14_4) (Some (Fin 0)),
      new_tx ''2'' ''C1'' ''T1'' (Fin dbl_0_8) (Some (Fin 0)),
      new_tx ''3'' ''C1'' ''T1'' (Fin dbl_3_6) (Some (Fin 0)),
      new_tx ''4'' ''C1'' ''T1'' (Fin dbl_0_4) (Some (Fin 0))]"

section \<open>Rounding\<close>

lemma pow2_pos [simp]: "0 < pow2 e"
  by (simp add: pow2_def)

lemma pow2_nonzero [simp]: "pow2 e \<noteq> 0"
  by (simp add: pow2_def)

lemma pow2_not_le_zero [simp]: "\<not> pow2 e \<le> 0"
  by (simp add: not_le)

lemma abs_pow2 [simp]: "\<bar>pow2 e\<bar> = pow2 e"
  by (simp add: abs_of_pos)

lemma pow2_add: "pow2 (a + b) = pow2 a * pow2 b"
  by (simp add: pow2_def power_int_add)

lemma pow2_diff: "pow2 (a - b) = pow2 a / pow2 b"
  by (simp add: pow2_def power_int_diff)

lemma pow2_mono: "a \<le> b \<Longrightarrow> pow2 a \<le> pow2 b"
  by (simp add: pow2_def power_int_increasing)

lemma pow2_strict_mono: "a < b \<Longrightarrow> pow2 a < pow2 b"
  by (simp add: pow2_def power_int_strict_increasing)

lemma pow2_nat: "0 \<le> e \<Longrightarrow> pow2 e = of_int (2 ^ nat e)"
  by (simp add: pow2_def power_int_def)

lemma rhe_of_int [simp]: "rhe (of_int n) = n"
  by (simp add: rhe_def)

lemma rhe_zero [simp]: "rhe 0 = 0"
  by (simp add: rhe_def)

lemma rhe_near: "\<bar>of_int (rhe y) - y\<bar> \<le> 1 / 2"
  unfolding rhe_def Let_def by (auto simp: abs_if) linarith+

lemma find_exp_range: "- 1022 \<le> find_exp a n \<and> find_exp a n \<le> int n - 1022"
  by (induction n) auto

lemma find_exp_lower: "- 1022 < find_exp a n \<Longrightarrow> pow2 (find_exp a n) \<le> a"
  by (induction n) (auto split: if_splits)

lemma find_exp_upper: "find_exp a n < e \<Longrightarrow> e \<le> int n - 1022 \<Longrightarrow> a < pow2 e"
proof (induction n)
  case 0
  then show ?case by simp
next
  case (Suc n)
  show ?case
  proof (cases "pow2 (int (Suc n) - 1022) \<le> a")
    case True
    with Suc.prems show ?thesis by simp
  next
    case False
    show ?thesis
    proof (cases "e = int (Suc n) - 1022")
      case True
      with False show ?thesis by simp
    next
      case ne: False
      with Suc.prems False have "find_exp a n < e" "e \<le> int n - 1022" by auto
      then show ?thesis by (rule Suc.IH)
    qed
  qed
qed

lemma exponent_range: "- 1022 \<le> exponent x" "exponent x \<le> 1023"
  using find_exp_range [of "\<bar>x\<bar>" 2045] by (simp_all add: exponent_def)

lemma exponent_lower: "- 1022 < exponent x \<Longrightarrow> pow2 (exponent x) \<le> \<bar>x\<bar>"
  unfolding exponent_def by (rule find_exp_lower)

lemma exponent_upper: "exponent x < 1023 \<Longrightarrow> \<bar>x\<bar> < pow2 (exponent x + 1)"
  unfolding exponent_def by (rule find_exp_upper [of _ 2045]) simp_all

lemma exponent_eq:
  assumes "- 1022 \<le> e" and "e \<le> 1023" and "pow2 e \<le> \<bar>x\<bar>" and "\<bar>x\<bar> < pow2 (e + 1)"
  shows "exponent x = e"
proof (rule antisym)
  show "exponent x \<le> e"
  proof (rule ccontr)
    assume "\<not> exponent x \<le> e"
    then have "e + 1 \<le> exponent x" "- 1022 < exponent x" using assms(1) by simp_all
    then have "pow2 (e + 1) \<le> \<bar>x\<bar>"
      using exponent_lower [of x] pow2_mono [of "e + 1" "exponent x"] by linarith
    with assms(4) show False by simp
  qed
  show "e \<le> exponent x"
  proof (rule ccontr)
    assume "\<not> e \<le> exponent x"
    then have lt: "exponent x + 1 \<le> e" "exponent x < 1023" using assms(2) by simp_all
    then have "\<bar>x\<bar> < pow2 e"
      using exponent_upper [of x] pow2_mono [of "exponent x + 1" e] by linarith
    with assms(3) show False by simp
  qed
qed

lemma exponent_subnormal: "\<bar>x\<bar> < pow2 (- 1021) \<Longrightarrow> exponent x = - 1022"
  using exponent_lower [of x] exponent_range [of x] pow2_mono [of "- 1021" "exponent x"]
  by (cases "exponent x = - 1022") auto

lemma round64_zero [simp]: "round64 0 = Fin 0"
  by (simp add: round64_def Let_def)

text \<open>Evaluation once the binade is known.\<close>

lemma round64_normal:
  assumes "- 1022 \<le> e" and "e \<le> 1022" and "pow2 e \<le> \<bar>x\<bar>" and "\<bar>x\<bar> < pow2 (e + 1)"
  shows "round64 x = Fin (of_int (rhe (x / pow2 (e - 52))) * pow2 (e - 52))"
proof -
  let ?q = "pow2 (e - 52)"
  let ?m = "rhe (x / ?q)"
  have e: "exponent x = e" using assms by (intro exponent_eq) simp_all
  have "\<bar>x / ?q\<bar> < pow2 (e + 1) / ?q" using assms(4) by (simp add: divide_strict_right_mono)
  also have "pow2 (e + 1) / ?q = pow2 53" by (simp flip: pow2_diff)
  finally have xq: "\<bar>x / ?q\<bar> < pow2 53" .
  have "\<bar>of_int ?m\<bar> \<le> \<bar>of_int ?m - x / ?q\<bar> + \<bar>x / ?q\<bar>" by linarith
  also have "\<dots> < 1 / 2 + pow2 53" using rhe_near [of "x / ?q"] xq by linarith
  finally have "\<bar>real_of_int ?m\<bar> < 1 / 2 + real_of_int (2 ^ 53)" by (simp add: pow2_nat)
  then have "\<bar>?m\<bar> \<le> 2 ^ 53" by linarith
  then have "\<bar>real_of_int ?m\<bar> \<le> pow2 53" by (simp add: pow2_nat)
  then have "\<bar>of_int ?m * ?q\<bar> \<le> pow2 53 * ?q"
    by (simp add: abs_mult mult_right_mono)
  also have "pow2 53 * ?q = pow2 (e + 1)" by (simp add: pow2_add [symmetric] add.commute)
  also have "\<dots> < pow2 1024" using assms(2) by (intro pow2_strict_mono) simp
  finally show ?thesis by (simp add: round64_def Let_def e)
qed

lemma pow2_int: "0 \<le> k \<Longrightarrow> \<exists>n::int. pow2 k = of_int n"
  using pow2_nat by blast

lemma round64_exact:
  assumes "x = of_int m * pow2 k" and "\<bar>m\<bar> < 2 ^ 53" and "- 1074 \<le> k" and "\<bar>x\<bar> < pow2 1024"
  shows "round64 x = Fin x"
proof -
  let ?e = "exponent x"
  let ?q = "pow2 (?e - 52)"
  have k: "?e - 52 \<le> k"
  proof (cases "?e = - 1022")
    case True
    with assms(3) show ?thesis by simp
  next
    case False
    then have "pow2 ?e \<le> \<bar>x\<bar>" using exponent_lower [of x] exponent_range(1) [of x] by simp
    also have "\<bar>x\<bar> = \<bar>real_of_int m\<bar> * pow2 k" by (simp add: assms(1) abs_mult)
    also have "\<dots> < pow2 53 * pow2 k"
    proof -
      have "\<bar>real_of_int m\<bar> < real_of_int (2 ^ 53)" using assms(2) by linarith
      then show ?thesis by (simp add: pow2_nat)
    qed
    also have "\<dots> = pow2 (53 + k)" by (simp add: pow2_add)
    finally have "?e < 53 + k"
      using pow2_mono [of "53 + k" ?e] by (cases "?e < 53 + k") auto
    then show ?thesis by simp
  qed
  then obtain n :: int where "pow2 (k - (?e - 52)) = of_int n"
    using pow2_int [of "k - (?e - 52)"] by auto
  moreover have "x / ?q = of_int m * pow2 (k - (?e - 52))"
    by (simp add: assms(1) pow2_diff)
  ultimately have int: "x / ?q = of_int (m * n)"
    by simp
  have "rhe (x / ?q) = m * n" by (simp only: int rhe_of_int)
  then have "of_int (rhe (x / ?q)) * ?q = x / ?q * ?q" by (simp only: int)
  then have "of_int (rhe (x / ?q)) * ?q = x" by simp
  with assms(4) show ?thesis by (simp add: round64_def Let_def)
qed

lemma round64_double: "is_double x \<Longrightarrow> round64 x = Fin x"
  unfolding is_double_def using round64_exact by blast

lemma round64_int: "\<bar>m\<bar> < 2 ^ 53 \<Longrightarrow> round64 (of_int m) = Fin (of_int m)"
proof -
  assume m: "\<bar>m\<bar> < 2 ^ 53"
  then have "\<bar>real_of_int m\<bar> < real_of_int (2 ^ 53)" by linarith
  also have "\<dots> = pow2 53" by (simp add: pow2_nat)
  also have "\<dots> < pow2 1024" by (intro pow2_strict_mono) simp
  finally show ?thesis using m round64_exact [of "of_int m" m 0] by (simp add: pow2_def)
qed

lemma round64_dyadic:
  assumes "x = of_int m * pow2 k" and "\<bar>m\<bar> < 2 ^ 53" and "- 1074 \<le> k" and "k \<le> 970"
  shows "round64 x = Fin x"
proof -
  have "\<bar>real_of_int m\<bar> < real_of_int (2 ^ 53)" using assms(2) by linarith
  then have "\<bar>real_of_int m\<bar> < pow2 53" by (simp add: pow2_nat)
  then have "\<bar>x\<bar> < pow2 53 * pow2 k" by (simp add: assms(1) abs_mult)
  also have "\<dots> = pow2 (53 + k)" by (simp add: pow2_add)
  also have "\<dots> < pow2 1024" using assms(4) by (intro pow2_strict_mono) simp
  finally show ?thesis using assms(1-3) by (intro round64_exact)
qed

lemma round64_one [simp]: "round64 1 = Fin 1"
  using round64_int [of 1] by simp

lemma round64_minus_one [simp]: "round64 (- 1) = Fin (- 1)"
  using round64_int [of "- 1"] by simp

lemma round64_numeral [simp]:
  "numeral n < (2::int) ^ 53 \<Longrightarrow> round64 (numeral n) = Fin (numeral n)"
  using round64_int [of "numeral n"] by simp

lemma round64_neg_numeral [simp]:
  "numeral n < (2::int) ^ 53 \<Longrightarrow> round64 (- numeral n) = Fin (- numeral n)"
  using round64_int [of "- numeral n"] by simp

section \<open>The confusion matrix\<close>

lemma count_row_total:
  assumes "binary (TX_FRAUD a)" and "binary (predicted_fraud p)"
  shows "total (count_row a p c) = total c + 1"
  using assms
  by (auto simp: binary_def total_def count_row_def opt_or_def opt_eq_def js_or_def js_eq_def
        truthy_def)

lemma count_row_nonneg: "nonneg c \<Longrightarrow> nonneg (count_row a p c)"
  by (simp add: nonneg_def count_row_def Let_def)

lemma count_loop_total:
  assumes "length actual = length predicted"
    and "\<forall>a\<in>set actual. binary (TX_FRAUD a)"
    and "\<forall>p\<in>set predicted. binary (predicted_fraud p)"
    and "nonneg c"
  shows "\<exists>c'. count_loop actual predicted c = Inr c' \<and> nonneg c'
           \<and> total c' = total c + int (length actual)"
  using assms
proof (induction actual predicted arbitrary: c rule: list_induct2)
  case Nil
  then show ?case by simp
next
  case (Cons a as p ps)
  have step: "total (count_row a p c) = total c + 1"
    using Cons.prems by (simp add: count_row_total)
  have nn: "nonneg (count_row a p c)"
    using Cons.prems by (simp add: count_row_nonneg)
  obtain c' where "count_loop as ps (count_row a p c) = Inr c'" "nonneg c'"
      "total c' = total (count_row a p c) + int (length as)"
    using Cons.IH [OF _ _ nn] Cons.prems by auto
  then show ?case using step by simp
qed

text \<open>The worked example: accuracy 0.75, precision 1, recall 0.5, and the F1 score is the
  double nearest to two thirds.\<close>

lemma sample_metrics:
  "calculateMetrics sample_actual sample_predicted =
     Inr \<lparr>accuracy = Fin (3 / 4), precision = Fin 1, recall = Fin (1 / 2),
          f1Score = Fin (6004799503160661 / 9007199254740992),
          confusion_matrix = [[Fin 2, Fin 0], [Fin 1, Fin 1]]\<rparr>"
proof -
  have r1: "round64 (3 / 4) = Fin (3 / 4)"
    using round64_dyadic [of "3 / 4" 3 "- 2"] by (simp add: pow2_def)
  have r2: "round64 (1 / 2) = Fin (1 / 2)"
    using round64_dyadic [of "1 / 2" 1 "- 1"] by (simp add: pow2_def)
  have r3: "round64 (3 / 2) = Fin (3 / 2)"
    using round64_dyadic [of "3 / 2" 3 "- 1"] by (simp add: pow2_def)
  have r4: "round64 (2 / 3) = Fin (6004799503160661 / 9007199254740992)"
    by (subst round64_normal [of "- 1"]) (simp_all add: pow2_def rhe_def)
  show ?thesis
    by (simp add: calculateMetrics_def sample_actual_def sample_predicted_def new_tx_def
          count_row_def metrics_of_def num_def js_or_def js_eq_def opt_or_def opt_eq_def
          truthy_def Let_def r1 r2 r3 r4)
qed

text \<open>
  C9. For ground-truth and predicted label sequences of equal length whose labels are all 0
  or 1, \<open>calculateMetrics\<close> returns, and the four counts of its confusion matrix
  \<open>[[tn, fp], [fn, tp]]\<close> are non-negative and add up to the number of rows.
\<close>

theorem confusion_matrix_counts_sum:
  assumes "length actual = length predicted"
    and "\<forall>a\<in>set actual. TX_FRAUD a = Some (Fin 0) \<or> TX_FRAUD a = Some (Fin 1)"
    and "\<forall>p\<in>set predicted. predicted_fraud p = Some (Fin 0) \<or> predicted_fraud p = Some (Fin 1)"
  shows "\<exists>m tn fp fn tp. calculateMetrics actual predicted = Inr m
           \<and> confusion_matrix m = [[num tn, num fp], [num fn, num tp]]
           \<and> 0 \<le> tn \<and> 0 \<le> fp \<and> 0 \<le> fn \<and> 0 \<le> tp
           \<and> tn + fp + fn + tp = int (length actual)"
proof -
  have "nonneg \<lparr>tp = 0, fp = 0, tn = 0, fn = 0\<rparr>" by (simp add: nonneg_def)
  from count_loop_total [OF assms(1) _ _ this] assms(2,3)
  obtain c where c: "count_loop actual predicted \<lparr>tp = 0, fp = 0, tn = 0, fn = 0\<rparr> = Inr c"
      "nonneg c" "total c = int (length actual)"
    by (auto simp: binary_def total_def)
  have "confusion_matrix (metrics_of c) = [[num (tn c), num (fp c)], [num (fn c), num (tp c)]]"
    by (simp add: metrics_of_def Let_def)
  with c show ?thesis
    unfolding calculateMetrics_def nonneg_def total_def by auto
qed

theorem confusion_matrix_counts_sum_witness:
  "length sample_actual = length sample_predicted
   \<and> map TX_FRAUD sample_actual = [Some (Fin 1), Some (Fin 0), Some (Fin 1), Some (Fin 0)]
   \<and> map predicted_fraud sample_predicted
        = [Some (Fin 1), Some (Fin 0), Some (Fin 0), Some (Fin 0)]
   \<and> (\<exists>m tn fp fn tp. calculateMetrics sample_actual sample_predicted = Inr m
           \<and> confusion_matrix m = [[num tn, num fp], [num fn, num tp]]
           \<and> 0 \<le> tn \<and> 0 \<le> fp \<and> 0 \<le> fn \<and> 0 \<le> tp
           \<and> tn + fp + fn + tp = int (length sample_actual))"
proof -
  have h1: "length sample_actual = length sample_predicted"
    by (simp add: sample_actual_def sample_predicted_def)
  have h2: "\<forall>a\<in>set sample_actual. TX_FRAUD a = Some (Fin 0) \<or> TX_FRAUD a = Some (Fin 1)"
    by (simp add: sample_actual_def new_tx_def)
  have h3: "\<forall>p\<in>set sample_predicted.
              predicted_fraud p = Some (Fin 0) \<or> predicted_fraud p = Some (Fin 1)"
    by (simp add: sample_predicted_def new_tx_def)
  have l2: "map TX_FRAUD sample_actual = [Some (Fin 1), Some (Fin 0), Some (Fin 1), Some (Fin 0)]"
    by (simp add: sample_actual_def new_tx_def)
  have l3: "map predicted_fraud sample_predicted
              = [Some (Fin 1), Some (Fin 0), Some (Fin 0), Some (Fin 0)]"
    by (simp add: sample_predicted_def new_tx_def)
  from confusion_matrix_counts_sum [OF h1 h2 h3] h1 l2 l3 show ?thesis by blast
qed

text \<open>Precision and recall are 0 when their denominator is 0, and the F1 score is 0 when
  both are: these three ratios end in \<open>|| 0\<close>.\<close>

lemma guarded_ratios_zero:
  assumes "nonneg c"
  shows "tp c + fp c = 0 \<Longrightarrow> precision (metrics_of c) = Fin 0"
    and "tp c + fn c = 0 \<Longrightarrow> recall (metrics_of c) = Fin 0"
    and "precision (metrics_of c) = Fin 0 \<Longrightarrow> recall (metrics_of c) = Fin 0 \<Longrightarrow>
           f1Score (metrics_of c) = Fin 0"
  using assms
  by (auto simp: metrics_of_def Let_def nonneg_def num_def js_or_def truthy_def)

text \<open>
  C2. On the empty batch the three guarded ratios are 0, but \<open>accuracy\<close>, the one ratio
  computed without \<open>|| 0\<close>, is \<open>0 / 0\<close>, which is \<open>NaN\<close>.
\<close>

theorem empty_batch_accuracy_is_NaN:
  "calculateMetrics [] [] =
     Inr \<lparr>accuracy = NaN, precision = Fin 0, recall = Fin 0, f1Score = Fin 0,
          confusion_matrix = [[Fin 0, Fin 0], [Fin 0, Fin 0]]\<rparr>"
  by (simp add: calculateMetrics_def metrics_of_def num_def js_or_def truthy_def Let_def)

section \<open>Grouping\<close>

lemma group_push_plain:
  "plain_key (key t) \<or> acc (key t) \<noteq> None \<Longrightarrow>
     group_push key acc t = Inr (acc(key t \<mapsto> own acc (key t) @ [t]))"
  by (auto simp: group_push_def own_def plain_key_def Let_def split: option.splits)

lemma group_push_inherited:
  "\<not> plain_key (key t) \<Longrightarrow> acc (key t) = None \<Longrightarrow> group_push key acc t = Inl push_error"
  by (simp add: group_push_def plain_key_def)

lemma group_reduce_groups:
  "group_reduce key acc ts = Inr g \<Longrightarrow>
     g k = (if k \<in> key ` set ts then Some (own acc k @ filter (\<lambda>t. key t = k) ts) else acc k)"
proof (induction ts arbitrary: acc)
  case Nil
  then show ?case by simp
next
  case (Cons t ts)
  from Cons.prems obtain acc' where push: "group_push key acc t = Inr acc'"
    and rest: "group_reduce key acc' ts = Inr g"
    by (auto split: sum.splits)
  from push have acc': "acc' = acc(key t \<mapsto> own acc (key t) @ [t])"
    by (auto simp: group_push_def own_def Let_def split: option.splits if_splits)
  from Cons.IH [OF rest]
  have g: "g k = (if k \<in> key ` set ts then Some (own acc' k @ filter (\<lambda>t. key t = k) ts) else acc' k)" .
  show ?case
  proof (cases "key t = k")
    case True
    then have "own acc' k = own acc k @ [t]" by (simp add: acc' own_def)
    moreover have "k \<notin> key ` set ts \<Longrightarrow> filter (\<lambda>t. key t = k) ts = []"
      by (auto simp: filter_empty_conv)
    ultimately show ?thesis using True g by (auto simp: acc')
  next
    case False
    then have "own acc' k = own acc k" "acc' k = acc k" by (simp_all add: acc' own_def)
    with False g show ?thesis by auto
  qed
qed

lemma group_reduce_plain:
  "\<forall>t\<in>set ts. plain_key (key t) \<Longrightarrow> \<exists>g. group_reduce key acc ts = Inr g"
proof (induction ts arbitrary: acc)
  case Nil
  then show ?case by simp
next
  case (Cons t ts)
  then show ?case by (simp add: group_push_plain)
qed

lemma group_reduce_inherited:
  assumes "\<forall>k\<in>dom acc. plain_key k" and "\<exists>t\<in>set ts. \<not> plain_key (key t)"
  shows "group_reduce key acc ts = Inl push_error"
  using assms
proof (induction ts arbitrary: acc)
  case Nil
  then show ?case by simp
next
  case (Cons t ts)
  show ?case
  proof (cases "plain_key (key t)")
    case True
    let ?acc' = "acc(key t \<mapsto> own acc (key t) @ [t])"
    have "\<forall>k\<in>dom ?acc'. plain_key k" using Cons.prems(1) True by auto
    moreover have "\<exists>t\<in>set ts. \<not> plain_key (key t)" using Cons.prems(2) True by auto
    ultimately have "group_reduce key ?acc' ts = Inl push_error" by (rule Cons.IH)
    then show ?thesis using True by (simp add: group_push_plain)
  next
    case False
    then have "acc (key t) = None" using Cons.prems(1) by (auto simp: dom_def)
    then show ?thesis using False by (simp add: group_push_inherited)
  qed
qed

section \<open>The two maps\<close>

lemma calculateCustomerStats_entries:
  assumes "calculateCustomerStats ts = Inr m"
  shows "m k = (if k \<in> CUSTOMER_ID ` set ts then Some (customer_stat (customer_rows ts k)) else None)"
proof -
  from assms obtain g where g: "group_reduce CUSTOMER_ID Map.empty ts = Inr g"
    and m: "m = (\<lambda>k. map_option customer_stat (g k))"
    by (auto simp: calculateCustomerStats_def split: sum.splits)
  from group_reduce_groups [OF g, of k] show ?thesis
    by (simp add: m own_def customer_rows_def)
qed

lemma calculateTerminalStats_entries:
  assumes "calculateTerminalStats ts = Inr m"
  shows "m k = (if k \<in> TERMINAL_ID ` set ts then Some (terminal_stat (terminal_rows ts k)) else None)"
proof -
  from assms obtain g where g: "group_reduce TERMINAL_ID Map.empty ts = Inr g"
    and m: "m = (\<lambda>k. map_option terminal_stat (g k))"
    by (auto simp: calculateTerminalStats_def split: sum.splits)
  from group_reduce_groups [OF g, of k] show ?thesis
    by (simp add: m own_def terminal_rows_def)
qed

lemma calculateCustomerStats_returns:
  "\<forall>t\<in>set ts. plain_key (CUSTOMER_ID t) \<Longrightarrow> \<exists>m. calculateCustomerStats ts = Inr m"
  using group_reduce_plain [of ts CUSTOMER_ID Map.empty]
  by (auto simp: calculateCustomerStats_def)

lemma calculateTerminalStats_returns:
  "\<forall>t\<in>set ts. plain_key (TERMINAL_ID t) \<Longrightarrow> \<exists>m. calculateTerminalStats ts = Inr m"
  using group_reduce_plain [of ts TERMINAL_ID Map.empty]
  by (auto simp: calculateTerminalStats_def)

lemma calculateCustomerStats_throws:
  "\<exists>t\<in>set ts. \<not> plain_key (CUSTOMER_ID t) \<Longrightarrow> calculateCustomerStats ts = Inl push_error"
  using group_reduce_inherited [of Map.empty ts CUSTOMER_ID]
  by (simp add: calculateCustomerStats_def)

lemma calculateTerminalStats_throws:
  "\<exists>t\<in>set ts. \<not> plain_key (TERMINAL_ID t) \<Longrightarrow> calculateTerminalStats ts = Inl push_error"
  using group_reduce_inherited [of Map.empty ts TERMINAL_ID]
  by (simp add: calculateTerminalStats_def)

lemma calculateCustomerStats_dom:
  "calculateCustomerStats ts = Inr m \<Longrightarrow> dom m = CUSTOMER_ID ` set ts"
  using calculateCustomerStats_entries [of ts m] by (auto simp: dom_def split: if_splits)

lemma calculateTerminalStats_dom:
  "calculateTerminalStats ts = Inr m \<Longrightarrow> dom m = TERMINAL_ID ` set ts"
  using calculateTerminalStats_entries [of ts m] by (auto simp: dom_def split: if_splits)

lemma customer_rows_nonempty:
  "k \<in> CUSTOMER_ID ` set ts \<Longrightarrow> customer_rows ts k \<noteq> []"
  by (auto simp: customer_rows_def filter_empty_conv)

lemma terminal_rows_nonempty:
  "k \<in> TERMINAL_ID ` set ts \<Longrightarrow> terminal_rows ts k \<noteq> []"
  by (auto simp: terminal_rows_def filter_empty_conv)

lemma batch_ids_known:
  assumes "calculateCustomerStats ts = Inr cs" and "calculateTerminalStats ts = Inr tms"
    and "t \<in> set ts"
  shows "cs (CUSTOMER_ID t) = Some (customer_stat (customer_rows ts (CUSTOMER_ID t)))"
    and "tms (TERMINAL_ID t) = Some (terminal_stat (terminal_rows ts (TERMINAL_ID t)))"
  using calculateCustomerStats_entries [OF assms(1), of "CUSTOMER_ID t"]
    calculateTerminalStats_entries [OF assms(2), of "TERMINAL_ID t"] assms(3)
  by simp_all

section \<open>Customer aggregation\<close>

lemma customer_stat_count:
  "customerStat.transactionCount (customer_stat g) = Fin (real (length g))"
  by (simp add: customer_stat_def len_def Let_def)

text \<open>
  What the aggregation by customer does on a batch none of whose customer ids is an inherited
  name: one entry per customer id of the batch, computed from that customer's rows in batch
  order, whose count is the number of those rows.
\<close>

lemma customer_stats_entries_counts:
  assumes "\<forall>t\<in>set ts. plain_key (CUSTOMER_ID t)"
  shows "\<exists>m. calculateCustomerStats ts = Inr m \<and> dom m = CUSTOMER_ID ` set ts
     \<and> (\<forall>k\<in>CUSTOMER_ID ` set ts.
           m k = Some (customer_stat (customer_rows ts k))
         \<and> customerStat.transactionCount (customer_stat (customer_rows ts k))
             = Fin (real (length (customer_rows ts k))))"
proof -
  from calculateCustomerStats_returns [OF assms] obtain m
    where m: "calculateCustomerStats ts = Inr m" by blast
  have "\<forall>k\<in>CUSTOMER_ID ` set ts. m k = Some (customer_stat (customer_rows ts k))"
    using calculateCustomerStats_entries [OF m] by simp
  with m calculateCustomerStats_dom [OF m] show ?thesis
    by (auto simp: customer_stat_count)
qed

text \<open>
  C8. A batch with a row whose customer id is \<open>constructor\<close> gets no stats entry at all: the
  grouping reads the inherited \<open>Object\<close> function under that key, stores no array and throws
  on \<open>push\<close>.
\<close>

theorem customer_stats_throw_on_inherited_name:
  "calculateCustomerStats inherited_name_batch
     = Inl (TypeError ''acc[k].push is not a function'')"
  by (simp add: calculateCustomerStats_def inherited_name_batch_def new_tx_def group_push_def
        object_prototype_keys_def push_error_def)

section \<open>Terminal fraud rate\<close>

lemma opt_eq_Fin: "opt_eq x (Fin a) = (x = Some (Fin a))"
  by (auto simp: opt_eq_def js_eq_def split: option.splits)

lemma terminal_stat_rate:
  assumes "g \<noteq> []"
  shows "fraudRate (terminal_stat g)
         = round64 (real (length (filter (\<lambda>t. TX_FRAUD t = Some (Fin 1)) g)) / real (length g))"
  using assms by (simp add: terminal_stat_def len_def Let_def opt_eq_Fin)

lemma terminal_stat_count:
  "terminalStat.transactionCount (terminal_stat g) = Fin (real (length g))"
  by (simp add: terminal_stat_def len_def Let_def)

text \<open>
  C3, as the code has it. A terminal's fraud rate is always a finite number: the number of
  its rows whose label is strictly equal to 1, divided by the number of its rows, as a
  double. A row with no label is counted as not fraud, so a terminal none of whose rows is
  labelled has rate 0.
\<close>

theorem terminal_fraud_rate_is_labelled_fraction:
  assumes "calculateTerminalStats ts = Inr m" and "m k = Some s"
  shows "fraudRate s =
           round64 (real (length (filter (\<lambda>t. TERMINAL_ID t = k \<and> TX_FRAUD t = Some (Fin 1)) ts))
                    / real (length (filter (\<lambda>t. TERMINAL_ID t = k) ts)))
         \<and> ((\<forall>t\<in>set ts. TERMINAL_ID t = k \<longrightarrow> TX_FRAUD t = None) \<longrightarrow> fraudRate s = Fin 0)"
proof -
  from calculateTerminalStats_entries [OF assms(1), of k] assms(2)
  have k: "k \<in> TERMINAL_ID ` set ts" and s: "s = terminal_stat (terminal_rows ts k)"
    by (auto split: if_splits)
  from k have ne: "terminal_rows ts k \<noteq> []"
    by (auto simp: terminal_rows_def filter_empty_conv)
  have rate: "fraudRate s =
           round64 (real (length (filter (\<lambda>t. TERMINAL_ID t = k \<and> TX_FRAUD t = Some (Fin 1)) ts))
                    / real (length (filter (\<lambda>t. TERMINAL_ID t = k) ts)))"
    using terminal_stat_rate [OF ne] by (simp add: s terminal_rows_def)
  moreover have "fraudRate s = Fin 0" if "\<forall>t\<in>set ts. TERMINAL_ID t = k \<longrightarrow> TX_FRAUD t = None"
  proof -
    from that have "filter (\<lambda>t. TERMINAL_ID t = k \<and> TX_FRAUD t = Some (Fin 1)) ts = []"
      by (auto simp: filter_empty_conv)
    with rate show ?thesis by simp
  qed
  ultimately show ?thesis by blast
qed

theorem terminal_fraud_rate_is_labelled_fraction_witness:
  "\<exists>m s. calculateTerminalStats unlabelled_batch = Inr m \<and> m ''T1'' = Some s
     \<and> map TX_FRAUD unlabelled_batch = [None]
     \<and> fraudRate s =
           round64 (real (length (filter (\<lambda>t. TERMINAL_ID t = ''T1'' \<and> TX_FRAUD t = Some (Fin 1))
                                    unlabelled_batch))
                    / real (length (filter (\<lambda>t. TERMINAL_ID t = ''T1'') unlabelled_batch)))
     \<and> fraudRate s = Fin 0"
proof -
  obtain m where m: "calculateTerminalStats unlabelled_batch = Inr m"
    using calculateTerminalStats_returns [of unlabelled_batch]
    by (auto simp: unlabelled_batch_def new_tx_def plain_key_def object_prototype_keys_def)
  from calculateTerminalStats_entries [OF m, of "''T1''"]
  obtain s where s: "m ''T1'' = Some s"
    by (auto simp: unlabelled_batch_def new_tx_def)
  have l: "map TX_FRAUD unlabelled_batch = [None]"
    by (simp add: unlabelled_batch_def new_tx_def)
  have none: "\<forall>t\<in>set unlabelled_batch. TERMINAL_ID t = ''T1'' \<longrightarrow> TX_FRAUD t = None"
    by (simp add: unlabelled_batch_def new_tx_def)
  note inst = terminal_fraud_rate_is_labelled_fraction [OF m s]
  from inst have r1: "fraudRate s =
           round64 (real (length (filter (\<lambda>t. TERMINAL_ID t = ''T1'' \<and> TX_FRAUD t = Some (Fin 1))
                                    unlabelled_batch))
                    / real (length (filter (\<lambda>t. TERMINAL_ID t = ''T1'') unlabelled_batch)))"
    by (rule conjunct1)
  from inst none have r2: "fraudRate s = Fin 0"
    by (elim conjE impE)
  show ?thesis
    using m s l r1 r2
    by - (rule exI [of _ m], rule exI [of _ s], intro conjI, assumption+)
qed

text \<open>
  C3, as the claim has it, fails: the one terminal of a batch whose only row has no label
  gets the fraud rate 0, the rate of a terminal whose rows are all labelled legitimate.
\<close>

theorem unlabelled_terminal_rate_is_zero:
  "map_option fraudRate (stats_get (calculateTerminalStats unlabelled_batch) ''T1'') = Some (Fin 0)
   \<and> stats_get (calculateTerminalStats unlabelled_batch) ''T1''
     = stats_get (calculateTerminalStats [new_tx ''1'' ''C1'' ''T1'' (Fin 10) (Some (Fin 0))]) ''T1''"
  by (simp add: calculateTerminalStats_def unlabelled_batch_def new_tx_def group_push_def
        object_prototype_keys_def stats_get_def terminal_stat_def average_def len_def Let_def
        opt_eq_def js_eq_def)

section \<open>The rule-based detector\<close>

lemma plain_batch_iff:
  "plain_batch ts = (\<forall>t\<in>set ts. plain_key (CUSTOMER_ID t) \<and> plain_key (TERMINAL_ID t))"
  by (simp add: plain_batch_def list_all_iff)

lemma plain_rule_batch: "plain_batch rule_batch"
  by (simp add: plain_batch_def rule_batch_def new_tx_def plain_key_def object_prototype_keys_def)

lemma detectFraudRuleBased_Inr:
  assumes "detectFraudRuleBased ts = Inr out"
  shows "\<exists>cs tms. calculateCustomerStats ts = Inr cs \<and> calculateTerminalStats ts = Inr tms
           \<and> out = map (rule_row cs tms) ts"
  using assms by (auto simp: detectFraudRuleBased_def split: sum.splits)

lemma detectFraudRuleBased_returns:
  assumes "\<forall>t\<in>set ts. plain_key (CUSTOMER_ID t) \<and> plain_key (TERMINAL_ID t)"
  shows "\<exists>out. detectFraudRuleBased ts = Inr out"
proof -
  from assms obtain cs where "calculateCustomerStats ts = Inr cs"
    using calculateCustomerStats_returns [of ts] by auto
  moreover from assms obtain tms where "calculateTerminalStats ts = Inr tms"
    using calculateTerminalStats_returns [of ts] by auto
  ultimately show ?thesis by (simp add: detectFraudRuleBased_def)
qed

lemma rule_row_fields:
  "(predicted_fraud (rule_row cs tms t), predicted_scenario (rule_row cs tms t)) =
     (if js_gt (TX_AMOUNT t) (Fin 220) then (Some (Fin 1), Some (Fin 1))
      else if \<exists>s. tms (TERMINAL_ID t) = Some s \<and> js_gt (fraudRate s) (Fin 0.5)
        then (Some (Fin 1), Some (Fin 2))
      else if \<exists>c. cs (CUSTOMER_ID t) = Some c
                 \<and> js_gt (TX_AMOUNT t) (js_mul (customerStat.avgAmount c) (Fin 3))
        then (Some (Fin 1), Some (Fin 3))
      else (Some (Fin 0), Some (Fin 0)))"
  by (auto simp: rule_row_def rule_cascade_def Let_def split: option.splits)

lemma rule_row_probability:
  "predicted_probability (rule_row cs tms t) = predicted_fraud (rule_row cs tms t)
   \<and> (predicted_probability (rule_row cs tms t) = Some (Fin 0)
        \<or> predicted_probability (rule_row cs tms t) = Some (Fin 1))"
  by (auto simp: rule_row_def rule_cascade_def Let_def split: option.splits)

text \<open>The precedence example: amount 500 at a terminal with fraud rate 0.9 is scenario 1; and
  amount 50 at a terminal with rate 0.1 for a customer of mean 40 is legitimate. The rates are
  the doubles written \<open>0.9\<close> and \<open>0.1\<close>.\<close>

lemma rule_cascade_examples:
  "rule_cascade Map.empty
     (Map.empty(''T1'' \<mapsto> \<lparr>terminalStat.avgAmount = Fin 100,
                             terminalStat.transactionCount = Fin 10,
                             fraudRate = Fin (8106479329266893 / 9007199254740992)\<rparr>))
     (new_tx ''1'' ''C1'' ''T1'' (Fin 500) None) = (Fin 1, Fin 1)"
  "rule_cascade
     (Map.empty(''C1'' \<mapsto> \<lparr>customerStat.avgAmount = Fin 40,
                             customerStat.transactionCount = Fin 10, amountVariation = Fin 1\<rparr>))
     (Map.empty(''T1'' \<mapsto> \<lparr>terminalStat.avgAmount = Fin 100,
                             terminalStat.transactionCount = Fin 10, fraudRate = Fin tenth\<rparr>))
     (new_tx ''1'' ''C1'' ''T1'' (Fin 50) None) = (Fin 0, Fin 0)"
  by (simp_all add: rule_cascade_def new_tx_def tenth_def)

lemma rule_batch_scenarios:
  "map_sum id (map predicted_scenario) (detectFraudRuleBased rule_batch)
   = Inr [Some (Fin 1), Some (Fin 2), Some (Fin 3), Some (Fin 0), Some (Fin 0), Some (Fin 0)]"
  by (simp add: detectFraudRuleBased_def calculateCustomerStats_def calculateTerminalStats_def
        rule_batch_def new_tx_def group_push_def object_prototype_keys_def customer_stat_def
        terminal_stat_def average_def len_def js_sub_def Let_def rule_row_def rule_cascade_def
        opt_eq_def js_eq_def)

text \<open>
  The mean is computed in doubles: the sum of 14.4, 0.8, 3.6 and 0.4 is accumulated as
  15.200000000000001, 18.8, 19.2, the mean is the double 4.8 and its product with 3 rounds to
  14.399999999999999, which is below the double 14.4. So the first row is flagged with
  scenario 3.
\<close>

lemma rounding_batch_scenarios:
  "map_sum id (map predicted_scenario) (detectFraudRuleBased rounding_batch)
   = Inr [Some (Fin 3), Some (Fin 0), Some (Fin 0), Some (Fin 0)]"
proof -
  define s2 :: real where "s2 = 8556839292003943 / 2 ^ 49"
  define s3 :: real where "s3 = 5291729562160333 / 2 ^ 48"
  define s4 :: real where "s4 = 5404319552844595 / 2 ^ 48"
  define avg :: real where "avg = 5404319552844595 / 2 ^ 50"
  define prod :: real where "prod = 2026619832316723 / 2 ^ 47"
  have a1: "js_add (Fin 0) (Fin dbl_14_4) = Fin dbl_14_4"
    using round64_dyadic [of dbl_14_4 8106479329266893 "- 49"]
    by (simp add: dbl_14_4_def pow2_def)
  have a2: "js_add (Fin dbl_14_4) (Fin dbl_0_8) = Fin s2"
    by (simp add: dbl_14_4_def dbl_0_8_def s2_def, subst round64_normal [of 3])
      (simp_all add: pow2_def rhe_def)
  have a3: "js_add (Fin s2) (Fin dbl_3_6) = Fin s3"
    by (simp add: dbl_3_6_def s2_def s3_def, subst round64_normal [of 4])
      (simp_all add: pow2_def rhe_def)
  have a4: "js_add (Fin s3) (Fin dbl_0_4) = Fin s4"
    by (simp add: dbl_0_4_def s3_def s4_def, subst round64_normal [of 4])
      (simp_all add: pow2_def rhe_def)
  have m: "js_div (Fin s4) (Fin 4) = Fin avg"
    by (simp add: s4_def avg_def, subst round64_normal [of 2])
      (simp_all add: pow2_def rhe_def)
  have p: "js_mul (Fin avg) (Fin 3) = Fin prod"
    by (simp add: avg_def prod_def, subst round64_normal [of 3])
      (simp_all add: pow2_def rhe_def)
  have r: "js_div (Fin 0) (Fin 4) = Fin 0"
    by simp
  have cmp: "js_gt (Fin dbl_14_4) (Fin prod)" "\<not> js_gt (Fin dbl_0_8) (Fin prod)"
    "\<not> js_gt (Fin dbl_3_6) (Fin prod)" "\<not> js_gt (Fin dbl_0_4) (Fin prod)"
    "\<not> js_gt (Fin dbl_14_4) (Fin 220)" "\<not> js_gt (Fin dbl_0_8) (Fin 220)"
    "\<not> js_gt (Fin dbl_3_6) (Fin 220)" "\<not> js_gt (Fin dbl_0_4) (Fin 220)"
    "\<not> js_gt (Fin 0) (Fin (1 / 2))"
    by (simp_all add: dbl_14_4_def dbl_0_8_def dbl_3_6_def dbl_0_4_def prod_def)
  show ?thesis
    by (simp add: detectFraudRuleBased_def calculateCustomerStats_def calculateTerminalStats_def
          rounding_batch_def new_tx_def group_push_def object_prototype_keys_def
          customer_stat_def terminal_stat_def average_def len_def Let_def rule_row_def
          rule_cascade_def opt_eq_def js_eq_def a1 a2 a3 a4 m p r cmp
        del: js_add.simps js_div.simps js_mul.simps js_pow2.simps js_sqrt.simps js_gt.simps)
qed

lemma rule_cascade_rows:
  assumes "detectFraudRuleBased ts = Inr out"
  shows "\<exists>cs tms. calculateCustomerStats ts = Inr cs \<and> calculateTerminalStats ts = Inr tms
     \<and> length out = length ts
     \<and> (\<forall>i<length ts.
          (predicted_fraud (out ! i), predicted_scenario (out ! i)) =
            (if js_gt (TX_AMOUNT (ts ! i)) (Fin 220) then (Some (Fin 1), Some (Fin 1))
             else if \<exists>s. tms (TERMINAL_ID (ts ! i)) = Some s \<and> js_gt (fraudRate s) (Fin 0.5)
               then (Some (Fin 1), Some (Fin 2))
             else if \<exists>c. cs (CUSTOMER_ID (ts ! i)) = Some c
                        \<and> js_gt (TX_AMOUNT (ts ! i)) (js_mul (customerStat.avgAmount c) (Fin 3))
               then (Some (Fin 1), Some (Fin 3))
             else (Some (Fin 0), Some (Fin 0)))
          \<and> predicted_probability (out ! i) = predicted_fraud (out ! i)
          \<and> (predicted_probability (out ! i) = Some (Fin 0)
               \<or> predicted_probability (out ! i) = Some (Fin 1)))"
proof -
  from detectFraudRuleBased_Inr [OF assms] obtain cs tms
    where cs: "calculateCustomerStats ts = Inr cs" and tms: "calculateTerminalStats ts = Inr tms"
      and out: "out = map (rule_row cs tms) ts"
    by blast
  have "length out = length ts" by (simp add: out)
  moreover have "\<forall>i<length ts.
          (predicted_fraud (out ! i), predicted_scenario (out ! i)) =
            (if js_gt (TX_AMOUNT (ts ! i)) (Fin 220) then (Some (Fin 1), Some (Fin 1))
             else if \<exists>s. tms (TERMINAL_ID (ts ! i)) = Some s \<and> js_gt (fraudRate s) (Fin 0.5)
               then (Some (Fin 1), Some (Fin 2))
             else if \<exists>c. cs (CUSTOMER_ID (ts ! i)) = Some c
                        \<and> js_gt (TX_AMOUNT (ts ! i)) (js_mul (customerStat.avgAmount c) (Fin 3))
               then (Some (Fin 1), Some (Fin 3))
             else (Some (Fin 0), Some (Fin 0)))
          \<and> predicted_probability (out ! i) = predicted_fraud (out ! i)
          \<and> (predicted_probability (out ! i) = Some (Fin 0)
               \<or> predicted_probability (out ! i) = Some (Fin 1))"
  proof (intro allI impI)
    fix i assume "i < length ts"
    then have row: "out ! i = rule_row cs tms (ts ! i)" by (simp add: out)
    show "(predicted_fraud (out ! i), predicted_scenario (out ! i)) =
            (if js_gt (TX_AMOUNT (ts ! i)) (Fin 220) then (Some (Fin 1), Some (Fin 1))
             else if \<exists>s. tms (TERMINAL_ID (ts ! i)) = Some s \<and> js_gt (fraudRate s) (Fin 0.5)
               then (Some (Fin 1), Some (Fin 2))
             else if \<exists>c. cs (CUSTOMER_ID (ts ! i)) = Some c
                        \<and> js_gt (TX_AMOUNT (ts ! i)) (js_mul (customerStat.avgAmount c) (Fin 3))
               then (Some (Fin 1), Some (Fin 3))
             else (Some (Fin 0), Some (Fin 0)))
          \<and> predicted_probability (out ! i) = predicted_fraud (out ! i)
          \<and> (predicted_probability (out ! i) = Some (Fin 0)
               \<or> predicted_probability (out ! i) = Some (Fin 1))"
      unfolding row by (rule conjI [OF rule_row_fields rule_row_probability])
  qed
  ultimately show ?thesis using cs tms by blast
qed

text \<open>
  C1. A row of amount 500 gets no verdict when another row of its batch has the customer id
  \<open>toString\<close>: the detector starts with the aggregation by customer, which throws on that id
  before any rule is evaluated.
\<close>

theorem high_amount_row_gets_no_verdict:
  "detectFraudRuleBased high_amount_batch = Inl (TypeError ''acc[k].push is not a function'')"
  by (simp add: detectFraudRuleBased_def calculateCustomerStats_def high_amount_batch_def
        new_tx_def group_push_def object_prototype_keys_def push_error_def Let_def)

section \<open>Feature extraction\<close>

lemma extractFeatures_Inr:
  assumes "extractFeatures ts = Inr rows"
  shows "\<exists>cs tms. calculateCustomerStats ts = Inr cs \<and> calculateTerminalStats ts = Inr tms
           \<and> rows = map (feature_row cs tms) ts"
  using assms by (auto simp: extractFeatures_def split: sum.splits)

lemma extractFeatures_returns:
  assumes "\<forall>t\<in>set ts. plain_key (CUSTOMER_ID t) \<and> plain_key (TERMINAL_ID t)"
  shows "\<exists>rows. extractFeatures ts = Inr rows"
proof -
  from assms obtain cs where "calculateCustomerStats ts = Inr cs"
    using calculateCustomerStats_returns [of ts] by auto
  moreover from assms obtain tms where "calculateTerminalStats ts = Inr tms"
    using calculateTerminalStats_returns [of ts] by auto
  ultimately show ?thesis by (simp add: extractFeatures_def)
qed

lemma feature_row_length: "length (feature_row cs tms t) = 14"
  by (simp add: feature_row_def Let_def)

text \<open>The row of a transaction whose customer and terminal are in neither map.\<close>

lemma feature_row_unseen:
  assumes "cs (CUSTOMER_ID t) = None" and "tms (TERMINAL_ID t) = None"
  shows "feature_row cs tms t =
     [TX_AMOUNT t, TX_TIME_SECONDS t, TX_TIME_DAYS t,
      Fin 0, Fin 0, Fin 0, Fin 0, Fin 0, Fin 0,
      js_abs (js_sub (TX_AMOUNT t) (Fin 0)),
      js_sin (phase (TX_TIME_SECONDS t) 86400), js_cos (phase (TX_TIME_SECONDS t) 86400),
      js_sin (phase (TX_TIME_DAYS t) 7), js_cos (phase (TX_TIME_DAYS t) 7)]"
  using assms by (simp add: feature_row_def opt_or_def)

text \<open>
  What feature extraction does when both aggregations return: one row of 14 numbers per
  transaction, in the order of the batch.
\<close>

lemma feature_rows_shape:
  assumes "extractFeatures ts = Inr rows"
  shows "length rows = length ts \<and> (\<forall>row\<in>set rows. length row = 14)
     \<and> (\<exists>cs tms. calculateCustomerStats ts = Inr cs \<and> calculateTerminalStats ts = Inr tms
          \<and> (\<forall>i<length ts. rows ! i = feature_row cs tms (ts ! i)))"
proof -
  from extractFeatures_Inr [OF assms] obtain cs tms
    where "calculateCustomerStats ts = Inr cs" "calculateTerminalStats ts = Inr tms"
      "rows = map (feature_row cs tms) ts"
    by blast
  then show ?thesis by (auto simp: feature_row_length)
qed

text \<open>
  C7. Feature extraction returns no feature vector for a batch with a row whose customer id
  is \<open>constructor\<close>: the aggregation it starts with throws.
\<close>

theorem feature_extraction_throws_on_inherited_name:
  "extractFeatures inherited_name_batch = Inl (TypeError ''acc[k].push is not a function'')"
  by (simp add: extractFeatures_def calculateCustomerStats_def inherited_name_batch_def
        new_tx_def group_push_def object_prototype_keys_def push_error_def)

section \<open>Ids of the batch are always known\<close>

lemma length_rows_positive:
  "t \<in> set ts \<Longrightarrow> 1 \<le> length (customer_rows ts (CUSTOMER_ID t))"
  "t \<in> set ts \<Longrightarrow> 1 \<le> length (terminal_rows ts (TERMINAL_ID t))"
  using customer_rows_nonempty [of "CUSTOMER_ID t" ts] terminal_rows_nonempty [of "TERMINAL_ID t" ts]
  by (auto simp: Suc_le_eq)

lemma opt_or_count: "1 \<le> n \<Longrightarrow> opt_or (Some (Fin (real n))) (Fin 0) = Fin (real n)"
  by (simp add: opt_or_def js_or_def truthy_def)

lemma extracted_rows_known:
  assumes "extractFeatures ts = Inr rows"
  shows "\<exists>cs tms. calculateCustomerStats ts = Inr cs \<and> calculateTerminalStats ts = Inr tms
          \<and> rows = map (feature_row cs tms) ts
          \<and> (\<forall>t\<in>set ts. cs (CUSTOMER_ID t) \<noteq> None \<and> tms (TERMINAL_ID t) \<noteq> None)
          \<and> (\<forall>i<length ts. \<exists>c n. 1 \<le> c \<and> 1 \<le> n
                \<and> rows ! i ! 4 = Fin (real c) \<and> rows ! i ! 7 = Fin (real n))"
proof -
  from extractFeatures_Inr [OF assms] obtain cs tms
    where cs: "calculateCustomerStats ts = Inr cs" and tms: "calculateTerminalStats ts = Inr tms"
      and rows: "rows = map (feature_row cs tms) ts"
    by blast
  have known: "\<forall>t\<in>set ts. cs (CUSTOMER_ID t) \<noteq> None \<and> tms (TERMINAL_ID t) \<noteq> None"
    using batch_ids_known [OF cs tms] by simp
  have "\<exists>c n. 1 \<le> c \<and> 1 \<le> n \<and> rows ! i ! 4 = Fin (real c) \<and> rows ! i ! 7 = Fin (real n)"
    if i: "i < length ts" for i
  proof -
    let ?t = "ts ! i"
    from i have t: "?t \<in> set ts" by simp
    from i have row: "rows ! i = feature_row cs tms ?t" by (simp add: rows)
    have c: "cs (CUSTOMER_ID ?t) = Some (customer_stat (customer_rows ts (CUSTOMER_ID ?t)))"
      and n: "tms (TERMINAL_ID ?t) = Some (terminal_stat (terminal_rows ts (TERMINAL_ID ?t)))"
      using batch_ids_known [OF cs tms t] by simp_all
    have "rows ! i ! 4 = Fin (real (length (customer_rows ts (CUSTOMER_ID ?t))))"
      and "rows ! i ! 7 = Fin (real (length (terminal_rows ts (TERMINAL_ID ?t))))"
      unfolding row
      using c n length_rows_positive [OF t]
      by (simp_all add: feature_row_def Let_def customer_stat_count terminal_stat_count
            opt_or_count)
    with length_rows_positive [OF t] show ?thesis by blast
  qed
  with cs tms rows known show ?thesis by blast
qed

lemma ruled_rows_known:
  assumes "detectFraudRuleBased ts = Inr out"
  shows "\<exists>cs tms. calculateCustomerStats ts = Inr cs \<and> calculateTerminalStats ts = Inr tms
          \<and> out = map (rule_row cs tms) ts
          \<and> (\<forall>t\<in>set ts. cs (CUSTOMER_ID t) \<noteq> None \<and> tms (TERMINAL_ID t) \<noteq> None)"
proof -
  from detectFraudRuleBased_Inr [OF assms] obtain cs tms
    where cs: "calculateCustomerStats ts = Inr cs" and tms: "calculateTerminalStats ts = Inr tms"
      and out: "out = map (rule_row cs tms) ts"
    by blast
  have "\<forall>t\<in>set ts. cs (CUSTOMER_ID t) \<noteq> None \<and> tms (TERMINAL_ID t) \<noteq> None"
    using batch_ids_known [OF cs tms] by simp
  with cs tms out show ?thesis by blast
qed

text \<open>
  C10. Feature extraction and the rule-based detector both start by computing the two maps
  from the batch they are given, and both return on every batch none of whose ids is an
  inherited name. Whenever they return, their rows are computed on maps that hold the
  customer id and the terminal id of every transaction of the batch, so no lookup is
  \<open>undefined\<close>; and positions 5 and 8 of every feature row (indices 4 and 7) are counts of at
  least 1.
\<close>

theorem batch_ids_always_in_the_maps:
  "(plain_batch ts \<longrightarrow>
      (\<exists>rows. extractFeatures ts = Inr rows) \<and> (\<exists>out. detectFraudRuleBased ts = Inr out))
   \<and> (\<forall>rows. extractFeatures ts = Inr rows \<longrightarrow>
        (\<exists>cs tms. calculateCustomerStats ts = Inr cs \<and> calculateTerminalStats ts = Inr tms
          \<and> rows = map (feature_row cs tms) ts
          \<and> (\<forall>t\<in>set ts. cs (CUSTOMER_ID t) \<noteq> None \<and> tms (TERMINAL_ID t) \<noteq> None)
          \<and> (\<forall>i<length ts. \<exists>c n. 1 \<le> c \<and> 1 \<le> n
                \<and> rows ! i ! 4 = Fin (real c) \<and> rows ! i ! 7 = Fin (real n))))
   \<and> (\<forall>out. detectFraudRuleBased ts = Inr out \<longrightarrow>
        (\<exists>cs tms. calculateCustomerStats ts = Inr cs \<and> calculateTerminalStats ts = Inr tms
          \<and> out = map (rule_row cs tms) ts
          \<and> (\<forall>t\<in>set ts. cs (CUSTOMER_ID t) \<noteq> None \<and> tms (TERMINAL_ID t) \<noteq> None)))"
  using extractFeatures_returns [of ts] detectFraudRuleBased_returns [of ts]
    extracted_rows_known [of ts] ruled_rows_known [of ts]
  unfolding plain_batch_iff by blast

theorem batch_ids_always_in_the_maps_witness:
  "plain_batch rule_batch
   \<and> (\<exists>rows. extractFeatures rule_batch = Inr rows
        \<and> (\<exists>cs tms. calculateCustomerStats rule_batch = Inr cs
          \<and> calculateTerminalStats rule_batch = Inr tms
          \<and> rows = map (feature_row cs tms) rule_batch
          \<and> (\<forall>t\<in>set rule_batch. cs (CUSTOMER_ID t) \<noteq> None \<and> tms (TERMINAL_ID t) \<noteq> None)
          \<and> (\<forall>i<length rule_batch. \<exists>c n. 1 \<le> c \<and> 1 \<le> n
                \<and> rows ! i ! 4 = Fin (real c) \<and> rows ! i ! 7 = Fin (real n))))
   \<and> (\<exists>out. detectFraudRuleBased rule_batch = Inr out
        \<and> (\<exists>cs tms. calculateCustomerStats rule_batch = Inr cs
          \<and> calculateTerminalStats rule_batch = Inr tms
          \<and> out = map (rule_row cs tms) rule_batch
          \<and> (\<forall>t\<in>set rule_batch. cs (CUSTOMER_ID t) \<noteq> None \<and> tms (TERMINAL_ID t) \<noteq> None)))"
  using batch_ids_always_in_the_maps [of rule_batch] plain_rule_batch
  by blast

section \<open>Calls before any fit\<close>

text \<open>
  C4, as the code has it. \<open>predict\<close> on a detector without a model or without a scaler
  throws \<open>Model not trained yet\<close>, whatever the batch. \<open>applyNormalization\<close> on a detector
  without a scaler does not throw: its guard returns the features it was given.
\<close>

theorem unfitted_predict_throws_and_transform_returns_input:
  "((model this = None \<or> scaler this = None) \<longrightarrow>
       predict this transactions = Inl (Error ''Model not trained yet''))
   \<and> (scaler this = None \<longrightarrow> applyNormalization this features = features)"
  by (auto simp: predict_def applyNormalization_def split: option.splits)

theorem unfitted_predict_throws_and_transform_returns_input_witness:
  "model new_FraudDetector = None \<and> scaler new_FraudDetector = None
   \<and> predict new_FraudDetector rule_batch = Inl (Error ''Model not trained yet'')
   \<and> applyNormalization new_FraudDetector [[Fin 1, Fin 2]] = [[Fin 1, Fin 2]]"
  using unfitted_predict_throws_and_transform_returns_input
          [of new_FraudDetector rule_batch "[[Fin 1, Fin 2]]"]
  by (simp add: new_FraudDetector_def)

text \<open>
  C4, as the claim has it, fails for the transform: before any fit it hands back the raw
  features, and raises nothing.
\<close>

theorem unfitted_transform_returns_raw_features:
  "applyNormalization new_FraudDetector [[Fin 1, Fin 2]] = [[Fin 1, Fin 2]]"
  by (simp add: applyNormalization_def new_FraudDetector_def)

section \<open>Fitting the scaler\<close>

lemma cell_map_upt: "i < n \<Longrightarrow> cell (map f [0..<n]) i = f i"
  by (simp add: cell_def nth_opt_def to_number_def)

lemma js_or_one_nonzero: "js_or x (Fin 1) \<noteq> Fin 0"
  by (simp add: js_or_def truthy_def)

lemma cell_stds_nonzero:
  "cell (map (\<lambda>i. js_or (f i) (Fin 1)) [0..<n]) i \<noteq> Fin 0"
  by (simp add: cell_def nth_opt_def to_number_def js_or_one_nonzero)

text \<open>
  Fitting on a non-empty feature matrix stores one mean and one deviation per position of
  the first row, and no stored deviation is 0: a computed root that is 0 or \<open>NaN\<close> is replaced
  by 1, and a deviation read past the end is \<open>undefined\<close>. So the transform never divides
  by 0.
\<close>

lemma stored_deviation_never_zero:
  assumes "features = first # rest"
  shows "\<exists>means stds.
           scaler (fst (normalizeFeatures this features)) = Some \<lparr>mean = means, std = stds\<rparr>
         \<and> length means = length first \<and> length stds = length first
         \<and> (\<forall>i. cell stds i \<noteq> Fin 0)"
  by (simp add: normalizeFeatures_def assms Let_def cell_stds_nonzero)

lemma apply_after_fit:
  assumes "features \<noteq> []"
  shows "applyNormalization (fst (normalizeFeatures this features)) features
         = snd (normalizeFeatures this features)"
  using assms by (cases features) (simp_all add: normalizeFeatures_def applyNormalization_def Let_def)

section \<open>A constant column\<close>

text \<open>
  Fitting on the constant column 0.1, 0.1, 0.1: the sum rounds up to 0.30000000000000004 and
  the mean to 0.10000000000000002, one unit in the last place above the entries; every
  deviation is \<open>-2^-56\<close>, the computed variance is \<open>2^-112\<close> and its root \<open>2^-56\<close> is not 0, so
  it is stored as it is and every entry is transformed to -1.
\<close>

lemma constant_column_fit:
  "normalizeFeatures this constant_column =
     (this\<lparr>scaler := Some \<lparr>mean = [Fin tenth_mean], std = [Fin tenth_std]\<rparr>\<rparr>,
      [[Fin (- 1)], [Fin (- 1)], [Fin (- 1)]])"
proof -
  define t2 :: real where "t2 = 2 * tenth"
  define t3 :: real where "t3 = 5404319552844596 / 2 ^ 54"
  define dv :: real where "dv = - (1 / 2 ^ 56)"
  define q1 :: real where "q1 = 1 / 2 ^ 112"
  define q2 :: real where "q2 = 1 / 2 ^ 111"
  define q3 :: real where "q3 = 3 / 2 ^ 112"
  have a1: "js_add (Fin 0) (Fin tenth) = Fin tenth"
    using round64_dyadic [of tenth 3602879701896397 "- 55"]
    by (simp add: tenth_def pow2_def)
  have a2: "js_add (Fin tenth) (Fin tenth) = Fin t2"
    using round64_dyadic [of "2 * tenth" 3602879701896397 "- 54"]
    by (simp add: t2_def tenth_def pow2_def)
  have a3: "js_add (Fin t2) (Fin tenth) = Fin t3"
    by (simp add: t2_def t3_def tenth_def, subst round64_normal [of "- 2"])
      (simp_all add: pow2_def rhe_def)
  have m: "js_div (Fin t3) (Fin 3) = Fin tenth_mean"
    by (simp add: t3_def tenth_mean_def, subst round64_normal [of "- 4"])
      (simp_all add: pow2_def rhe_def)
  have d: "js_sub (Fin tenth) (Fin tenth_mean) = Fin dv"
    using round64_dyadic [of "- (1 / 2 ^ 56)" "- 1" "- 56"]
    by (simp add: js_sub_def dv_def tenth_def tenth_mean_def pow2_def)
  have r1: "round64 (1 / 2 ^ 112) = Fin (1 / 2 ^ 112)"
    using round64_dyadic [of "1 / 2 ^ 112" 1 "- 112"] by (simp add: pow2_def)
  have r2: "round64 (1 / 2 ^ 111) = Fin (1 / 2 ^ 111)"
    using round64_dyadic [of "1 / 2 ^ 111" 1 "- 111"] by (simp add: pow2_def)
  have r3: "round64 (3 / 2 ^ 112) = Fin (3 / 2 ^ 112)"
    using round64_dyadic [of "3 / 2 ^ 112" 3 "- 112"] by (simp add: pow2_def)
  have r4: "round64 (1 / 2 ^ 56) = Fin (1 / 2 ^ 56)"
    using round64_dyadic [of "1 / 2 ^ 56" 1 "- 56"] by (simp add: pow2_def)
  have root: "sqrt (1 / 2 ^ 112) = 1 / 2 ^ 56"
    by (rule real_sqrt_unique) (simp_all add: power_divide)
  have p: "js_pow2 (Fin dv) = Fin q1"
    using r1 by (simp add: dv_def q1_def)
  have v1: "js_add (Fin 0) (Fin q1) = Fin q1"
    using r1 by (simp add: q1_def)
  have v2: "js_add (Fin q1) (Fin q1) = Fin q2"
    using r2 by (simp add: q1_def q2_def)
  have v3: "js_add (Fin q2) (Fin q1) = Fin q3"
    using r3 by (simp add: q1_def q2_def q3_def)
  have vd: "js_div (Fin q3) (Fin 3) = Fin q1"
    using r1 by (simp add: q1_def q3_def)
  have "js_sqrt (Fin (1 / 2 ^ 112)) = Fin (1 / 2 ^ 56)"
    by (simp only: js_sqrt.simps root r4) simp
  then have sq: "js_sqrt (Fin q1) = Fin tenth_std"
    by (simp add: q1_def tenth_std_def)
  have n: "js_div (Fin dv) (Fin tenth_std) = Fin (- 1)"
    by (simp add: dv_def tenth_std_def)
  have nz: "tenth_std \<noteq> 0"
    by (simp add: tenth_std_def)
  show ?thesis
    by (simp add: normalizeFeatures_def constant_column_def column_mean_def column_variance_def
          scale_row_def cell_def nth_opt_def to_number_def len_def js_or_def truthy_def Let_def
          a1 a2 a3 m d p v1 v2 v3 vd sq n nz
        del: js_add.simps js_div.simps js_pow2.simps js_sqrt.simps)
qed

text \<open>
  C6. Fitting on the constant column 0.1, 0.1, 0.1 stores the deviation \<open>2^-56\<close>, not 1: the
  computed mean is not the common value of the entries, so the computed variance is not 0
  and \<open>|| 1\<close> does not replace its root.
\<close>

theorem constant_column_deviation_is_not_replaced:
  "scaler (fst (normalizeFeatures new_FraudDetector constant_column))
     = Some \<lparr>mean = [Fin (7205759403792795 / 2 ^ 56)], std = [Fin (1 / 2 ^ 56)]\<rparr>"
  by (simp add: constant_column_fit tenth_mean_def tenth_std_def)

text \<open>
  C5. Fitting on the constant column 0.1, 0.1, 0.1 and transforming it gives -1, -1, -1: a
  column of zero variance is not transformed to zeros, and its mean is -1.
\<close>

theorem constant_column_transforms_to_minus_one:
  "snd (normalizeFeatures new_FraudDetector constant_column) = [[Fin (- 1)], [Fin (- 1)], [Fin (- 1)]]
   \<and> applyNormalization (fst (normalizeFeatures new_FraudDetector constant_column)) constant_column
       = [[Fin (- 1)], [Fin (- 1)], [Fin (- 1)]]"
  using apply_after_fit [of constant_column new_FraudDetector]
  by (simp add: constant_column_fit) (simp add: constant_column_def)

end
